theory Spec2Isabelle
  imports Main
begin

unbundle bit_operations_syntax

section \<open>JavaScript strings\<close>

text \<open>
  A JavaScript string is modelled by the list of its UTF-8 bytes. Line feed, the single
  quote and the double quote get names, since they cannot be typed inside a literal.
\<close>

definition nl :: string where
  "nl = [CHR 0x0A]"

definition sq :: string where
  "sq = [CHR 0x27]"

definition dq :: string where
  "dq = [CHR 0x22]"

text \<open>\<^verbatim>\<open>s.startsWith(p)\<close>\<close>

fun startsWith :: "string \<Rightarrow> string \<Rightarrow> bool" where
  "startsWith s [] = True"
| "startsWith [] (c # p) = False"
| "startsWith (x # s) (c # p) = (x = c \<and> startsWith s p)"

text \<open>\<^verbatim>\<open>s.includes(p)\<close>: \<open>p\<close> occurs in \<open>s\<close> as a contiguous substring.\<close>

fun str_includes :: "string \<Rightarrow> string \<Rightarrow> bool" where
  "str_includes [] p = (p = [])"
| "str_includes (x # s) p = (startsWith (x # s) p \<or> str_includes s p)"

text \<open>\<^verbatim>\<open>parts.join(sep)\<close>\<close>

fun join :: "string \<Rightarrow> string list \<Rightarrow> string" where
  "join sep [] = []"
| "join sep [x] = x"
| "join sep (x # y # ys) = x @ sep @ join sep (y # ys)"

section \<open>SHA-1, as \<^verbatim>\<open>crypto.createHash('sha1').update(s).digest('hex')\<close>\<close>

text \<open>
  Both components name generated artifacts by the SHA-1 digest of a string, in lower-case
  hexadecimal. The digest is the one of FIPS 180: 32-bit words are natural numbers below
  \<open>2 ^ 32\<close>, with the wrap-around of addition and rotation written out.
\<close>

definition add32 :: "nat \<Rightarrow> nat \<Rightarrow> nat" where
  "add32 a b = (a + b) mod 4294967296"

definition not32 :: "nat \<Rightarrow> nat" where
  "not32 a = 4294967295 - a"

definition rotl :: "nat \<Rightarrow> nat \<Rightarrow> nat" where
  "rotl n x = (x * 2 ^ n) mod 4294967296 + x div 2 ^ (32 - n)"

text \<open>Padding: the byte 0x80, zeros up to 56 modulo 64, the bit length in 8 bytes.\<close>

definition sha1_pad :: "nat list \<Rightarrow> nat list" where
  "sha1_pad bs =
     (let l = length bs; z = (119 - l mod 64) mod 64 in
      bs @ [128] @ replicate z 0 @
      map (\<lambda>i. (8 * l) div 256 ^ (7 - i) mod 256) [0..<8])"

fun be_words :: "nat list \<Rightarrow> nat list" where
  "be_words (a # b # c # d # rest) =
     (((a * 256 + b) * 256 + c) * 256 + d) # be_words rest"
| "be_words _ = []"

fun chunks16 :: "'a list \<Rightarrow> 'a list list" where
  "chunks16 [] = []"
| "chunks16 (x # xs) = take 16 (x # xs) # chunks16 (drop 15 xs)"

text \<open>The message schedule, latest word first while it is built.\<close>

definition schedule_step :: "nat list \<Rightarrow> nat list" where
  "schedule_step ws = rotl 1 (ws ! 2 XOR ws ! 7 XOR ws ! 13 XOR ws ! 15) # ws"

definition schedule :: "nat list \<Rightarrow> nat list" where
  "schedule blk = rev (fold (\<lambda>_. schedule_step) [16..<80] (rev blk))"

definition sha1_f :: "nat \<Rightarrow> nat \<Rightarrow> nat \<Rightarrow> nat \<Rightarrow> nat" where
  "sha1_f t b c d =
     (if t < 20 then (b AND c) OR (not32 b AND d)
      else if t < 40 then b XOR c XOR d
      else if t < 60 then (b AND c) OR (b AND d) OR (c AND d)
      else b XOR c XOR d)"

definition sha1_k :: "nat \<Rightarrow> nat" where
  "sha1_k t =
     (if t < 20 then 0x5A827999 else if t < 40 then 0x6ED9EBA1
      else if t < 60 then 0x8F1BBCDC else 0xCA62C1D6)"

type_synonym sha1_state = "nat \<times> nat \<times> nat \<times> nat \<times> nat"

fun sha1_round :: "nat \<times> nat \<Rightarrow> sha1_state \<Rightarrow> sha1_state" where
  "sha1_round (t, w) (a, b, c, d, e) =
     (add32 (add32 (add32 (add32 (rotl 5 a) (sha1_f t b c d)) e) (sha1_k t)) w,
      a, rotl 30 b, c, d)"

fun compress :: "sha1_state \<Rightarrow> nat list \<Rightarrow> sha1_state" where
  "compress (h0, h1, h2, h3, h4) blk =
     (case fold sha1_round (zip [0..<80] (schedule blk)) (h0, h1, h2, h3, h4) of
        (a, b, c, d, e) \<Rightarrow>
          (add32 h0 a, add32 h1 b, add32 h2 c, add32 h3 d, add32 h4 e))"

definition sha1_init :: sha1_state where
  "sha1_init = (0x67452301, 0xEFCDAB89, 0x98BADCFE, 0x10325476, 0xC3D2E1F0)"

definition sha1_words :: "nat list \<Rightarrow> sha1_state" where
  "sha1_words bs = foldl compress sha1_init (chunks16 (be_words (sha1_pad bs)))"

definition hex_digit :: "nat \<Rightarrow> char" where
  "hex_digit n = ''0123456789abcdef'' ! n"

definition hex32 :: "nat \<Rightarrow> string" where
  "hex32 w = map (\<lambda>i. hex_digit (w div 16 ^ (7 - i) mod 16)) [0..<8]"

definition sha1_hex :: "string \<Rightarrow> string" where
  "sha1_hex s =
     (case sha1_words (map of_char s) of (a, b, c, d, e) \<Rightarrow>
        hex32 a @ hex32 b @ hex32 c @ hex32 d @ hex32 e)"

section \<open>\<^verbatim>\<open>JSON.stringify\<close> of a string\<close>

definition json_escape :: "char \<Rightarrow> string" where
  "json_escape c =
     (let n = (of_char c :: nat) in
      if n = 0x22 then [CHR 0x5C, CHR 0x22]
      else if n = 0x5C then [CHR 0x5C, CHR 0x5C]
      else if n = 0x08 then [CHR 0x5C, CHR ''b'']
      else if n = 0x0C then [CHR 0x5C, CHR ''f'']
      else if n = 0x0A then [CHR 0x5C, CHR ''n'']
      else if n = 0x0D then [CHR 0x5C, CHR ''r'']
      else if n = 0x09 then [CHR 0x5C, CHR ''t'']
      else if n < 0x20 then [CHR 0x5C, CHR ''u'', CHR ''0'', CHR ''0'',
                             hex_digit (n div 16), hex_digit (n mod 16)]
      else [c])"

definition JSON_stringify :: "string \<Rightarrow> string" where
  "JSON_stringify s = dq @ concat (map json_escape s) @ dq"

section \<open>\<^verbatim>\<open>path\<close> of Node.js, on POSIX\<close>

text \<open>\<^verbatim>\<open>path.basename(p)\<close>: the last segment, trailing slashes ignored.\<close>

definition basename :: "string \<Rightarrow> string" where
  "basename p =
     rev (takeWhile (\<lambda>c. c \<noteq> CHR ''/'') (dropWhile (\<lambda>c. c = CHR ''/'') (rev p)))"

text \<open>
  \<^verbatim>\<open>path.dirname(p)\<close>: everything before the slash that precedes the last segment; the
  scan never looks at index 0.
\<close>

definition dirname :: "string \<Rightarrow> string" where
  "dirname p =
     (case p of
        [] \<Rightarrow> ''.''
      | c # t \<Rightarrow>
          (let hasRoot = (c = CHR ''/'');
               t1 = dropWhile (\<lambda>c. c = CHR ''/'') (rev t);
               t2 = dropWhile (\<lambda>c. c \<noteq> CHR ''/'') t1
           in if t2 = [] then (if hasRoot then ''/'' else ''.'')
              else if hasRoot \<and> length t2 = 1 then ''//''
              else take (length t2) p))"

text \<open>The segments of a path: the pieces between slashes.\<close>

fun split_slash :: "string \<Rightarrow> string list" where
  "split_slash [] = [[]]"
| "split_slash (c # cs) =
     (if c = CHR ''/'' then [] # split_slash cs
      else (case split_slash cs of [] \<Rightarrow> [[c]] | s # ss \<Rightarrow> (c # s) # ss))"

text \<open>
  \<^verbatim>\<open>normalizeString\<close>: empty and \<open>.\<close> segments vanish, \<open>..\<close> removes the segment before
  it; above the top it is kept for a relative path and dropped for an absolute one. The
  accumulator holds the segments kept so far, latest first.
\<close>

fun normalize_segs :: "bool \<Rightarrow> string list \<Rightarrow> string list \<Rightarrow> string list" where
  "normalize_segs allowAboveRoot acc [] = rev acc"
| "normalize_segs allowAboveRoot acc (s # ss) =
     (if s = [] \<or> s = ''.'' then normalize_segs allowAboveRoot acc ss
      else if s = ''..'' then
        (case acc of
           [] \<Rightarrow> normalize_segs allowAboveRoot (if allowAboveRoot then [''..''] else []) ss
         | t # ts \<Rightarrow>
             if t = ''..''
             then normalize_segs allowAboveRoot (if allowAboveRoot then ''..'' # acc else acc) ss
             else normalize_segs allowAboveRoot ts ss)
      else normalize_segs allowAboveRoot (s # acc) ss)"

definition normalizeString :: "string \<Rightarrow> bool \<Rightarrow> string" where
  "normalizeString p allowAboveRoot =
     join ''/'' (normalize_segs allowAboveRoot [] (split_slash p))"

definition isAbsolute :: "string \<Rightarrow> bool" where
  "isAbsolute p = startsWith p ''/''"

text \<open>\<^verbatim>\<open>path.normalize(p)\<close>\<close>

definition normalize :: "string \<Rightarrow> string" where
  "normalize p =
     (if p = [] then ''.''
      else
        (let trailingSeparator = (last p = CHR ''/'');
             q = normalizeString p (\<not> isAbsolute p)
         in if q = [] then
              (if isAbsolute p then ''/'' else if trailingSeparator then ''./'' else ''.'')
            else (if isAbsolute p then ''/'' else []) @ q
                 @ (if trailingSeparator then ''/'' else [])))"

text \<open>\<^verbatim>\<open>path.join(...parts)\<close>: the non-empty parts, joined by a slash, normalized.\<close>

definition path_join :: "string list \<Rightarrow> string" where
  "path_join parts =
     (let joined = join ''/'' (filter (\<lambda>a. a \<noteq> []) parts)
      in if joined = [] then ''.'' else normalize joined)"

text \<open>
  \<^verbatim>\<open>path.resolve(p)\<close> for one argument: a relative path is taken from the working
  directory \<open>cwd\<close> of the process, which is absolute.
\<close>

definition resolve :: "string \<Rightarrow> string \<Rightarrow> string" where
  "resolve cwd p =
     (let r = (if p = [] then cwd @ ''/''
               else if isAbsolute p then p @ ''/''
               else cwd @ ''/'' @ p @ ''/'')
      in ''/'' @ normalizeString r False)"

text \<open>
  \<^verbatim>\<open>path.relative(from, to)\<close>: both are resolved, their common leading segments are
  dropped, and the result climbs out of what is left of \<open>from\<close> and descends into what
  is left of \<open>to\<close>.
\<close>

fun drop_common :: "string list \<Rightarrow> string list \<Rightarrow> string list \<times> string list" where
  "drop_common (x # xs) (y # ys) =
     (if x = y then drop_common xs ys else (x # xs, y # ys))"
| "drop_common xs ys = (xs, ys)"

definition relative :: "string \<Rightarrow> string \<Rightarrow> string \<Rightarrow> string" where
  "relative cwd from to =
     (if from = to then []
      else
        (let f = normalize_segs False [] (split_slash (resolve cwd from));
             t = normalize_segs False [] (split_slash (resolve cwd to))
         in case drop_common f t of
              (fs, ts) \<Rightarrow> join ''/'' (map (\<lambda>_. ''..'') fs @ ts)))"

section \<open>The HTML shell\<close>

text \<open>
  \<^verbatim>\<open>getDomComponentHtml(src?, { title? })\<close>. A missing argument is \<open>None\<close>; the
  conditional of the template tests truthiness, so an empty string counts as missing.
\<close>

text \<open>The fixed text of the template, before, between and after its two interpolations.\<close>

definition html_head :: string where
  \<open>html_head = join nl
     ['''',
      ''<!DOCTYPE html>'',
      ''<html>'',
      ''    <head>'',
      ''        <meta charset="utf-8" />'',
      ''        <meta httpEquiv="X-UA-Compatible" content="IE=edge" />'',
      ''        <meta name="viewport" content="width=device-width, initial-scale=1, user-scalable=no">'',
      ''        '']\<close>

definition html_middle :: string where
  \<open>html_middle = join nl
     ['''',
      ''        <style id="expo-dom-component-style">'',
      ''        /* These styles make the body full-height */'',
      ''        html,'',
      ''        body {'',
      ''          -webkit-overflow-scrolling: touch; /* Enables smooth momentum scrolling */'',
      ''        }'',
      ''        /* These styles make the root element full-height */'',
      ''        #root {'',
      ''          display: flex;'',
      ''          flex: 1;'',
      ''        }'',
      ''        </style>'',
      ''    </head>'',
      ''    <body>'',
      ''    <noscript>DOM Components require <code>javaScriptEnabled</code></noscript>'',
      ''        <!-- Root element for the DOM component. -->'',
      ''        <div id="root"></div>'',
      ''        '']\<close>

definition html_tail :: string where
  \<open>html_tail = join nl
     ['''',
      ''    </body>'',
      ''</html>'']\<close>

definition getDomComponentHtml :: "string option \<Rightarrow> string option \<Rightarrow> string" where
  \<open>getDomComponentHtml src title =
     html_head
     @ (case title of
          None \<Rightarrow> []
        | Some t \<Rightarrow> if t = [] then [] else ''<title>'' @ t @ ''</title>'')
     @ html_middle
     @ (case src of
          None \<Rightarrow> []
        | Some u \<Rightarrow> if u = [] then [] else ''<script crossorigin src="'' @ u @ ''"></script>'')
     @ html_tail\<close>

section \<open>The directive transformer\<close>

text \<open>
  The Babel visitor \<^verbatim>\<open>Program\<close> of \<^verbatim>\<open>expoUseDomDirectivePlugin\<close>. A module is its list
  of directives and the nodes of its body in the order the traversal visits them; only the
  two export declarations matter to the visitor. \<open>TemplateAst t\<close> stands for
  statements parsed from the text \<open>t\<close>.
\<close>

datatype node =
    ExportNamedDeclaration
  | ExportDefaultDeclaration
  | OtherNode
  | TemplateAst string

record program =
  directives :: "string list"
  body :: "node list"

text \<open>
  What the plugin reads from the caller (\<^verbatim>\<open>platform\<close> may be undefined) and from the
  compile state: the file name, which may be missing, and the metadata, \<open>None\<close> when it
  is not an object.
\<close>

record caller =
  isProduction :: bool
  platform :: "string option"

record file_state =
  filename :: "string option"
  metadata :: "(string \<rightharpoonup> string) option"

text \<open>
  The errors the visitor throws, in the order of the source: no file name in the state; a
  named export in a module with the directive; no default export; a production build for
  a platform that is neither ios nor android; the parser rejecting the proxy text; and
  \<^verbatim>\<open>assertExpoMetadata\<close> finding no object.
\<close>

datatype error =
    MissingFilename
  | NamedExport
  | MissingDefaultExport
  | UnsupportedPlatform "string option"
  | TemplateSyntaxError
  | MetadataNotObject

text \<open>String concatenation with a value that may be undefined or null.\<close>

definition js_string :: "string \<Rightarrow> string option \<Rightarrow> string" where
  "js_string missing v = (case v of None \<Rightarrow> missing | Some s \<Rightarrow> s)"

text \<open>
  \<^verbatim>\<open>path.traverse\<close> with the two export visitors: a named export throws where it is
  met, a default export sets the flag.
\<close>

fun traverse :: "node list \<Rightarrow> bool \<Rightarrow> error + bool" where
  "traverse [] hasDefaultExport = Inr hasDefaultExport"
| "traverse (ExportNamedDeclaration # ns) hasDefaultExport = Inl NamedExport"
| "traverse (ExportDefaultDeclaration # ns) hasDefaultExport = traverse ns True"
| "traverse (n # ns) hasDefaultExport = traverse ns hasDefaultExport"

text \<open>The declaration of \<^verbatim>\<open>source\<close> pushed to the proxy module, by build mode and platform.\<close>

definition proxy_source :: "bool \<Rightarrow> string option \<Rightarrow> string \<Rightarrow> string \<Rightarrow> error + string" where
  \<open>proxy_source isProd plat filePath outputKey =
     (if isProd then
        (let hash = sha1_hex outputKey in
         if plat = Some ''ios'' then
           (let outputName = ''www.bundle/'' @ hash @ ''.html''
            in Inr (''const source = { uri: '' @ JSON_stringify outputName @ '' };''))
         else if plat = Some ''android'' then
           (let outputName = ''www/'' @ hash @ ''.html''
            in Inr (''const source = { uri: "file:///android_asset" + ''
                    @ JSON_stringify outputName @ '' };''))
         else Inl (UnsupportedPlatform plat))
      else
        Inr (''const source = { uri: new URL("/_expo/@dom/'' @ basename filePath
             @ ''?file=" + '' @ JSON_stringify outputKey
             @ '', require("react-native/Libraries/Core/Devtools/getDevServer")().url).toString() };''))\<close>

definition proxy_imports :: string where
  "proxy_imports =
     ''import React from '' @ sq @ ''react'' @ sq @ '';'' @ nl
     @ ''import { WebView } from '' @ sq @ ''expo/dom/internal'' @ sq @ '';''"

definition proxy_export :: string where
  "proxy_export =
     nl @ ''export default React.forwardRef((props, ref) => {'' @ nl
     @ ''  return React.createElement(WebView, { ref, ...props, source });'' @ nl
     @ ''});''"

text \<open>
  \<^verbatim>\<open>assertExpoMetadata\<close>: the metadata must be an object; an object is a map from
  field names to the strings they hold.
\<close>

definition assertExpoMetadata :: "(string \<rightharpoonup> string) option \<Rightarrow> error + (string \<rightharpoonup> string)" where
  "assertExpoMetadata md = (case md of None \<Rightarrow> Inl MetadataNotObject | Some m \<Rightarrow> Inr m)"

text \<open>
  The end of the visitor: the three pieces of the proxy module are joined by line feeds and
  parsed by \<^verbatim>\<open>template.ast\<close>, the statements replace the body, the directives are
  cleared, and the key is saved in the metadata. \<open>template_ast\<close> is Babel's parser,
  \<open>None\<close> when it throws: the text holds the base name of the file as it is, inside a
  string literal.
\<close>

definition replace_body ::
  "(string \<Rightarrow> node list option) \<Rightarrow> program \<Rightarrow> file_state \<Rightarrow> string \<Rightarrow> string
   \<Rightarrow> error + program \<times> file_state"
where
  "replace_body template_ast prog state src outputKey =
     (let proxyModule = [proxy_imports, src, proxy_export] in
      case template_ast (join nl proxyModule) of
        None \<Rightarrow> Inl TemplateSyntaxError
      | Some statements \<Rightarrow>
          (let prog' = prog\<lparr>body := statements, directives := []\<rparr> in
           case assertExpoMetadata (metadata state) of
             Inl e \<Rightarrow> Inl e
           | Inr m \<Rightarrow>
               Inr (prog',
                    state\<lparr>metadata :=
                      Some (m(''expoDomComponentReference'' \<mapsto> outputKey))\<rparr>)))"

text \<open>
  The visitor. \<open>pathToFileURL p\<close> is \<^verbatim>\<open>url.pathToFileURL(p).href\<close> of Node.js. The result
  is the error thrown, or the module and the compile state as the visitor leaves them.
\<close>

definition expoUseDomDirectivePlugin ::
  "(string \<Rightarrow> string) \<Rightarrow> (string \<Rightarrow> node list option) \<Rightarrow> caller \<Rightarrow> program \<Rightarrow> file_state
   \<Rightarrow> error + program \<times> file_state"
where
  "expoUseDomDirectivePlugin pathToFileURL template_ast api prog state =
     (if platform api = Some ''web'' then Inr (prog, state)
      else
        (let hasUseDomDirective = list_ex (\<lambda>d. d = ''use dom'') (directives prog) in
         case filename state of
           None \<Rightarrow> Inl MissingFilename
         | Some filePath \<Rightarrow>
             if filePath = [] then Inl MissingFilename
             else if \<not> hasUseDomDirective then Inr (prog, state)
             else
               (case traverse (body prog) False of
                  Inl e \<Rightarrow> Inl e
                | Inr hasDefaultExport \<Rightarrow>
                    if \<not> hasDefaultExport then Inl MissingDefaultExport
                    else
                      (let outputKey = pathToFileURL filePath in
                       case proxy_source (isProduction api) (platform api) filePath outputKey of
                         Inl e \<Rightarrow> Inl e
                       | Inr src \<Rightarrow> replace_body template_ast prog state src outputKey))))"

section \<open>The development server: virtual entry modules and the middleware\<close>

text \<open>
  A parsed \<^verbatim>\<open>URL\<close>: its path and its query parameters in order. The bundler options
  that the middleware sets; whatever else the instance carries is the rest of the record.
\<close>

record url =
  pathname :: string
  searchParams :: "(string \<times> string) list"

record metro_options =
  isDOM :: bool
  mainModuleName :: string
  bytecode :: bool
  metro_platform :: string
  isExporting :: bool
  engine :: string
  lazy :: bool

text \<open>
  What \<^verbatim>\<open>createDomComponentsMiddleware\<close> is given, and the functions it calls that live
  outside this code: the \<^verbatim>\<open>URL\<close> constructor with and without a base (\<open>None\<close> when it
  throws), \<^verbatim>\<open>fileURLToFilePath\<close>, \<^verbatim>\<open>createBundleUrlPath\<close>, and
  \<^verbatim>\<open>new URL(path, base).toString()\<close>. \<open>cwd\<close> is the working directory of the process.
\<close>

record 'o env =
  projectRoot :: string
  metroRoot :: string
  getDevServerUrl :: string
  instanceMetroOptions :: "'o metro_options_scheme"
  cwd :: string
  parseURL :: "string \<Rightarrow> url option"
  parseURLWithBase :: "string \<Rightarrow> string \<Rightarrow> url option"
  fileURLToFilePath :: "string \<Rightarrow> string"
  createBundleUrlPath :: "'o metro_options_scheme \<Rightarrow> string"
  resolveURL :: "string \<Rightarrow> string \<Rightarrow> string"

text \<open>
  The state the server works on: the regular files on disk with their contents, the
  directories made, the time spent suspended in milliseconds, and the memo of the
  one-time warning with the warnings logged.
\<close>

record server_state =
  files :: "string \<rightharpoonup> string"
  dirs :: "string set"
  slept_ms :: nat
  warned :: bool
  warnings :: "string list"

record request =
  req_url :: "string option"

record response =
  statusCode :: nat
  statusMessage :: "string option"
  headers :: "string \<rightharpoonup> string"
  res_body :: "string option"

datatype outcome =
    CallNext
  | Ended response
  | Rejected

text \<open>
  Modelled from the spec: \<^verbatim>\<open>fileExistsAsync\<close> of \<^verbatim>\<open>utils/dir\<close>, which is not among the
  sources. Step 6 of the generator: "Check whether generatedPath already existed before
  this write."
\<close>

definition fileExistsAsync :: "server_state \<Rightarrow> string \<Rightarrow> bool" where
  "fileExistsAsync st p = (files st p \<noteq> None)"

text \<open>\<^verbatim>\<open>warnUnstable\<close>, memoized: the warning is logged on the first call only.\<close>

definition warnUnstable :: "server_state \<Rightarrow> server_state" where
  "warnUnstable st =
     (if warned st then st
      else st\<lparr>warned := True,
              warnings := warnings st @
                [''Using experimental DOM Components API. Production exports may not work as expected.'']\<rparr>)"

text \<open>
  \<^verbatim>\<open>getDomComponentVirtualProxy\<close>: the path and the text of the entry module. \<open>wd\<close> is
  the working directory, against which \<^verbatim>\<open>path.relative\<close> resolves its arguments.
\<close>

definition getDomComponentVirtualProxy :: "string \<Rightarrow> string \<Rightarrow> string \<Rightarrow> string \<times> string" where
  "getDomComponentVirtualProxy wd generatedEntry filePath =
     (let relativeFilePath0 = relative wd (dirname generatedEntry) filePath;
          relativeFilePath =
            (if \<not> startsWith relativeFilePath0 ''.'' then ''./'' @ relativeFilePath0
             else relativeFilePath0);
          stringifiedFilePath = JSON_stringify relativeFilePath;
          contents =
            nl @ ''// Entry file for the web-side of a DOM Component.'' @ nl
            @ ''import { registerDOMComponent } from '' @ sq @ ''expo/dom/internal'' @ sq @ '';'' @ nl
            @ nl
            @ ''registerDOMComponent(() => import('' @ stringifiedFilePath @ ''), ''
            @ stringifiedFilePath @ '');'' @ nl
      in (generatedEntry, contents))"

text \<open>
  \<^verbatim>\<open>getDomComponentVirtualEntryModuleAsync\<close>: the path of the entry module, and the
  state after the directory is made, the file is written and, for a new file, the wait.
\<close>

definition getDomComponentVirtualEntryModuleAsync ::
  "'o env \<Rightarrow> string \<Rightarrow> server_state \<Rightarrow> string \<times> server_state"
where
  "getDomComponentVirtualEntryModuleAsync e file st =
     (let filePath = (if startsWith file ''file://'' then fileURLToFilePath e file else file);
          hash = sha1_hex filePath;
          generatedEntry = path_join [projectRoot e, ''.expo/@dom'', hash @ ''.js''];
          entryFile = getDomComponentVirtualProxy (cwd e) generatedEntry filePath;
          st1 = st\<lparr>dirs := insert (dirname (fst entryFile)) (dirs st)\<rparr>;
          exists = fileExistsAsync st1 (fst entryFile);
          st2 = st1\<lparr>files := (files st1)(fst entryFile \<mapsto> snd entryFile)\<rparr>;
          st3 = (if \<not> exists then st2\<lparr>slept_ms := slept_ms st2 + 1000\<rparr> else st2)
      in (generatedEntry, st3))"

text \<open>\<^verbatim>\<open>coerceUrl\<close>: parse as an absolute URL, else against a fixed base.\<close>

definition coerceUrl :: "'o env \<Rightarrow> string \<Rightarrow> url option" where
  "coerceUrl e u =
     (case parseURL e u of
        Some parsed \<Rightarrow> Some parsed
      | None \<Rightarrow> parseURLWithBase e u ''https://localhost:0'')"

text \<open>
  The request handler that \<^verbatim>\<open>createDomComponentsMiddleware\<close> returns. \<open>res\<close> is the
  response object as the handler finds it.
\<close>

definition createDomComponentsMiddleware ::
  "'o env \<Rightarrow> request \<Rightarrow> response \<Rightarrow> server_state \<Rightarrow> outcome \<times> server_state"
where
  "createDomComponentsMiddleware e req res st =
     (case req_url req of
        None \<Rightarrow> (CallNext, st)
      | Some u \<Rightarrow>
          if u = [] then (CallNext, st)
          else
            (case coerceUrl e u of
               None \<Rightarrow> (Rejected, st)
             | Some parsed \<Rightarrow>
                 if \<not> startsWith (pathname parsed) ''/_expo/@dom'' then (CallNext, st)
                 else
                   (let file = map_of (searchParams parsed) ''file'' in
                    if (case file of None \<Rightarrow> True
                        | Some f \<Rightarrow> f = [] \<or> \<not> startsWith f ''file://'')
                    then
                      (Ended (res\<lparr>statusCode := 400,
                                  statusMessage :=
                                    Some (''Invalid file path: '' @ js_string ''null'' file)\<rparr>),
                       st)
                    else
                      (let f = the file;
                           st1 = warnUnstable st;
                           (generatedEntry, st2) = getDomComponentVirtualEntryModuleAsync e f st1;
                           metroUrl =
                             resolveURL e
                               (createBundleUrlPath e
                                  ((instanceMetroOptions e)
                                     \<lparr>isDOM := True,
                                      mainModuleName := relative (cwd e) (metroRoot e) generatedEntry,
                                      bytecode := False,
                                      metro_platform := ''web'',
                                      isExporting := False,
                                      engine := ''hermes'',
                                      lazy := True\<rparr>))
                               (getDevServerUrl e)
                       in (Ended (res\<lparr>statusCode := 200,
                                      headers := (headers res)(''Content-Type'' \<mapsto> ''text/html''),
                                      res_body :=
                                        Some (getDomComponentHtml (Some metroUrl)
                                                (Some (basename f)))\<rparr>),
                           st2)))))"

text \<open>
  For the examples: a parser that accepts every text and keeps it as one node, and
  \<^verbatim>\<open>url.pathToFileURL(p).href\<close> for an absolute, normalized POSIX path \<open>p\<close> whose
  characters need no percent-encoding, where it is \<open>file://\<close> followed by \<open>p\<close>.
\<close>

definition parse_as_one :: "string \<Rightarrow> node list option" where
  "parse_as_one t = Some [TemplateAst t]"

definition posix_pathToFileURL :: "string \<Rightarrow> string" where
  "posix_pathToFileURL p = ''file://'' @ p"

text \<open>
  Modelled from the spec: \<^verbatim>\<open>fileURLToFilePath\<close> of \<^verbatim>\<open>metro/createServerComponentsMiddleware\<close>,
  which is not among the sources, on the URLs of such paths. Step 6 of the middleware:
  "Resolve the file URL to a file-system path"; the glossary: a canonical file URL is
  "the \<open>file://\<close>-scheme string form of an absolute file-system path".
\<close>

definition posix_fileURLToFilePath :: "string \<Rightarrow> string" where
  "posix_fileURLToFilePath u = drop 7 u"

text \<open>
  A concrete environment for the examples: a project at \<open>/project\<close> on POSIX, and request
  targets of the form \<open>path?file=value\<close>, which parse only against the base.
\<close>

definition simple_parse :: "string \<Rightarrow> url option" where
  "simple_parse u =
     (let p = takeWhile (\<lambda>c. c \<noteq> CHR ''?'') u;
          q = drop (length p + 1) u
      in Some \<lparr>pathname = p,
               searchParams =
                 (if startsWith q ''file='' then [(''file'', drop 5 q)] else [])\<rparr>)"

definition example_env :: "unit env" where
  "example_env =
     \<lparr>projectRoot = ''/project'',
      metroRoot = ''/project'',
      getDevServerUrl = ''http://localhost:8081'',
      instanceMetroOptions =
        \<lparr>isDOM = False, mainModuleName = [], bytecode = False, metro_platform = [],
         isExporting = False, engine = [], lazy = False\<rparr>,
      cwd = ''/project'',
      parseURL = (\<lambda>u. None),
      parseURLWithBase = (\<lambda>u base. simple_parse u),
      fileURLToFilePath = posix_fileURLToFilePath,
      createBundleUrlPath = (\<lambda>opts. ''/'' @ mainModuleName opts @ ''.bundle''),
      resolveURL = (\<lambda>p base. base @ p)\<rparr>"

definition res0 :: response where
  "res0 = \<lparr>statusCode = 200, statusMessage = None, headers = Map.empty, res_body = None\<rparr>"

definition st0 :: server_state where
  "st0 = \<lparr>files = Map.empty, dirs = {}, slept_ms = 0, warned = False, warnings = []\<rparr>"

section \<open>Strings and paths\<close>

subsection \<open>Prefixes and substrings\<close>

lemma startsWith_append: "startsWith (p @ b) p"
  by (induction p) auto

lemma startsWith_Cons_mem: "startsWith s (c # p) \<Longrightarrow> c \<in> set s"
  by (cases s) auto

lemma str_includes_prefix: "startsWith s p \<Longrightarrow> str_includes s p"
  by (cases s; cases p) auto

lemma str_includes_append: "str_includes (a @ p @ b) p"
proof (induction a)
  case Nil
  show ?case by (simp add: str_includes_prefix startsWith_append)
next
  case (Cons x a)
  then show ?case by simp
qed

lemma join_append:
  "xs \<noteq> [] \<Longrightarrow> ys \<noteq> [] \<Longrightarrow> join sep (xs @ ys) = join sep xs @ sep @ join sep ys"
  by (induction sep xs rule: join.induct) (auto simp: neq_Nil_conv)

subsection \<open>The last segment of a path\<close>

lemma basename_nonempty:
  assumes "c \<in> set p" and "c \<noteq> CHR ''/''"
  shows "basename p \<noteq> []"
proof -
  let ?d = "dropWhile (\<lambda>c. c = CHR ''/'') (rev p)"
  from assms have "?d \<noteq> []"
    by (auto simp: dropWhile_eq_Nil_conv)
  then obtain x xs where d: "?d = x # xs"
    by (cases ?d) auto
  then have "x \<noteq> CHR ''/''"
    using hd_dropWhile [of "\<lambda>c. c = CHR ''/''" "rev p"] by auto
  with d show ?thesis
    by (simp add: basename_def)
qed

lemma basename_last_segment:
  assumes "CHR ''/'' \<notin> set n" and "n \<noteq> []"
  shows "basename (a @ CHR ''/'' # n) = n"
proof -
  from assms have h: "hd (rev n) \<noteq> CHR ''/''"
    by (metis hd_rev last_in_set)
  from assms(2) have "dropWhile (\<lambda>c. c = CHR ''/'') (rev n @ CHR ''/'' # rev a)
      = rev n @ CHR ''/'' # rev a"
    using h by (cases "rev n") auto
  moreover have "takeWhile (\<lambda>c. c \<noteq> CHR ''/'') (rev n @ CHR ''/'' # rev a) = rev n"
    using assms(1) by (subst takeWhile_append2) auto
  ultimately show ?thesis
    by (simp add: basename_def)
qed

lemma dirname_last_segment:
  assumes "CHR ''/'' \<notin> set n" and "n \<noteq> []" and "a \<noteq> []" and "last a \<noteq> CHR ''/''"
  shows "dirname (a @ CHR ''/'' # n) = a"
proof -
  from assms(3) obtain c t where a: "a = c # t"
    by (cases a) auto
  from assms have h: "hd (rev n) \<noteq> CHR ''/''"
    by (metis hd_rev last_in_set)
  have d1: "dropWhile (\<lambda>c. c = CHR ''/'') (rev n @ CHR ''/'' # rev t)
      = rev n @ CHR ''/'' # rev t"
    using h assms(2) by (cases "rev n") auto
  have d2: "dropWhile (\<lambda>c. c \<noteq> CHR ''/'') (rev n @ CHR ''/'' # rev t) = CHR ''/'' # rev t"
    using assms(1) by (subst dropWhile_append2) auto
  have notroot: "\<not> (c = CHR ''/'' \<and> t = [])"
    using assms(4) a by auto
  show ?thesis
    using notroot by (auto simp: dirname_def a d1 d2 Let_def)
qed

subsection \<open>Joining a root with the entry directory and a file name\<close>

lemma split_slash_nonempty: "split_slash p \<noteq> []"
  by (induction p) (auto split: list.splits)

lemma split_slash_append:
  "split_slash (a @ CHR ''/'' # b) = split_slash a @ split_slash b"
proof (induction a)
  case Nil
  show ?case by simp
next
  case (Cons c a)
  obtain s ss where "split_slash a = s # ss"
    using split_slash_nonempty [of a] by (cases "split_slash a") auto
  with Cons show ?case by simp
qed

lemma split_slash_segment: "CHR ''/'' \<notin> set n \<Longrightarrow> split_slash n = [n]"
  by (induction n) auto

lemma normalize_segs_append:
  "normalize_segs a acc (xs @ ys) = normalize_segs a (rev (normalize_segs a acc xs)) ys"
  by (induction xs arbitrary: acc) (auto split: list.splits)

lemma normalize_segs_entry:
  assumes "n \<noteq> []" and "n \<noteq> ''.''" and "n \<noteq> ''..''"
  shows "normalize_segs a [] (xs @ [''.expo'', ''@dom'', n])
         = normalize_segs a [] xs @ [''.expo'', ''@dom'', n]"
  using assms by (simp add: normalize_segs_append)

lemma normalize_entry:
  assumes r: "r = [] \<or> last r = CHR ''/''"
    and "CHR ''/'' \<notin> set n" and "n \<noteq> []" and "n \<noteq> ''.''" and "n \<noteq> ''..''"
  shows "\<exists>pre. normalize (r @ ''.expo/@dom/'' @ n) = pre @ ''.expo/@dom/'' @ n \<and>
           (pre = [] \<or> last pre = CHR ''/'')"
proof -
  note n = assms(2-5)
  define p where "p = r @ ''.expo/@dom/'' @ n"
  define a where "a = (\<not> isAbsolute p)"
  have split: "split_slash p = split_slash (butlast r) @ [''.expo'', ''@dom'', n]"
    if "r \<noteq> []"
  proof -
    from that r have "r = butlast r @ ''/''"
      by (metis append_butlast_last_id)
    then have "p = butlast r @ CHR ''/'' # (''.expo'' @ CHR ''/'' # (''@dom'' @ CHR ''/'' # n))"
      unfolding p_def by (metis append_Cons append_Nil append_assoc)
    then show ?thesis
      using n(1) by (simp only: split_slash_append) (simp add: split_slash_segment)
  qed
  have split0: "split_slash p = [''.expo'', ''@dom'', n]" if "r = []"
  proof -
    have "p = ''.expo'' @ CHR ''/'' # (''@dom'' @ CHR ''/'' # n)"
      using that by (simp add: p_def)
    then show ?thesis
      using n(1) by (simp only: split_slash_append) (simp add: split_slash_segment)
  qed
  define R where "R = (if r = [] then [] else normalize_segs a [] (split_slash (butlast r)))"
  have segs: "normalize_segs a [] (split_slash p) = R @ [''.expo'', ''@dom'', n]"
  proof (cases "r = []")
    case True
    then show ?thesis
      using n split0 by (simp add: R_def)
  next
    case False
    then show ?thesis
      using normalize_segs_entry [OF n(2-4)] split [OF False] by (simp add: R_def)
  qed
  have j: "join ''/'' (R @ [''.expo'', ''@dom'', n])
        = (if R = [] then [] else join ''/'' R @ ''/'') @ ''.expo/@dom/'' @ n"
    by (cases "R = []") (simp_all add: join_append)
  have lastp: "last p \<noteq> CHR ''/''"
    unfolding p_def using n(1,2) by (metis append_is_Nil_conv last_appendR last_in_set)
  have pne: "p \<noteq> []"
    by (simp add: p_def)
  define pre where
    "pre = (if isAbsolute p then ''/'' else []) @ (if R = [] then [] else join ''/'' R @ ''/'')"
  have "join ''/'' (R @ [''.expo'', ''@dom'', n]) \<noteq> []"
    unfolding j by simp
  then have "normalize p = pre @ ''.expo/@dom/'' @ n"
    using lastp pne
    by (simp add: normalize_def normalizeString_def segs [unfolded a_def] j Let_def pre_def)
  moreover have "pre = [] \<or> last pre = CHR ''/''"
    by (simp add: pre_def)
  ultimately show ?thesis
    unfolding p_def by blast
qed

lemma path_join_entry:
  assumes "CHR ''/'' \<notin> set n" and "n \<noteq> []" and "n \<noteq> ''.''" and "n \<noteq> ''..''"
  shows "\<exists>pre. path_join [r, ''.expo/@dom'', n] = pre @ ''.expo/@dom/'' @ n \<and>
           (pre = [] \<or> last pre = CHR ''/'')"
proof (cases "r = []")
  case True
  with assms(2) have "path_join [r, ''.expo/@dom'', n] = normalize ([] @ ''.expo/@dom/'' @ n)"
    by (simp add: path_join_def)
  then show ?thesis
    using normalize_entry [OF _ assms, of "[]"] by simp
next
  case False
  with assms(2) have "path_join [r, ''.expo/@dom'', n]
      = normalize ((r @ ''/'') @ ''.expo/@dom/'' @ n)"
    by (simp add: path_join_def)
  then show ?thesis
    using normalize_entry [OF _ assms, of "r @ ''/''"] by simp
qed

section \<open>Digests\<close>

subsection \<open>Digests are hexadecimal, and JSON leaves them as they are\<close>

lemma hex_digit_in: "n < 16 \<Longrightarrow> hex_digit n \<in> set ''0123456789abcdef''"
  unfolding hex_digit_def by (rule nth_mem) simp

lemma hex32_chars: "set (hex32 w) \<subseteq> set ''0123456789abcdef''"
proof -
  have "hex_digit (w div 16 ^ (7 - i) mod 16) \<in> set ''0123456789abcdef''" for i
    by (rule hex_digit_in) simp
  then show ?thesis
    unfolding hex32_def by (auto simp del: list.set)
qed

lemma sha1_hex_chars: "set (sha1_hex s) \<subseteq> set ''0123456789abcdef''"
proof -
  obtain a b c d e where "sha1_words (map of_char s) = (a, b, c, d, e)"
    by (cases "sha1_words (map of_char s)") auto
  then show ?thesis
    using hex32_chars [of a] hex32_chars [of b] hex32_chars [of c] hex32_chars [of d]
      hex32_chars [of e]
    unfolding sha1_hex_def by (simp del: list.set)
qed

lemma sha1_hex_length: "length (sha1_hex s) = 40"
proof -
  obtain a b c d e where "sha1_words (map of_char s) = (a, b, c, d, e)"
    by (cases "sha1_words (map of_char s)") auto
  then show ?thesis
    by (simp add: sha1_hex_def hex32_def)
qed

lemma json_escape_hex: "c \<in> set ''0123456789abcdef'' \<Longrightarrow> json_escape c = [c]"
  by (auto simp: json_escape_def)

lemma concat_json_plain:
  "(\<And>c. c \<in> set s \<Longrightarrow> json_escape c = [c]) \<Longrightarrow> concat (map json_escape s) = s"
  by (induction s) auto

lemma concat_json_sha1: "concat (map json_escape (sha1_hex s)) = sha1_hex s"
  using sha1_hex_chars [of s] by (intro concat_json_plain json_escape_hex) blast

lemma JSON_stringify_ios:
  "JSON_stringify (''www.bundle/'' @ sha1_hex k @ ''.html'')
   = dq @ ''www.bundle/'' @ sha1_hex k @ ''.html'' @ dq"
  by (simp add: JSON_stringify_def concat_json_sha1 json_escape_def)

lemma JSON_stringify_android:
  "JSON_stringify (''www/'' @ sha1_hex k @ ''.html'')
   = dq @ ''www/'' @ sha1_hex k @ ''.html'' @ dq"
  by (simp add: JSON_stringify_def concat_json_sha1 json_escape_def)

lemma entry_name:
  "CHR ''/'' \<notin> set (sha1_hex x @ ''.js'')" "sha1_hex x @ ''.js'' \<noteq> []"
  "sha1_hex x @ ''.js'' \<noteq> ''.''" "sha1_hex x @ ''.js'' \<noteq> ''..''"
  using sha1_hex_chars [of x] by auto

subsection \<open>Digests of concrete strings\<close>

text \<open>
  The first is the test vector of the standard; the others are the digests of a file URL,
  of the path of the same file, and of the path of a file inside the entry directory.
\<close>

lemma replicate_num: "replicate (numeral k) x = x # replicate (pred_numeral k) x"
  by (simp add: numeral_eq_Suc)

lemmas sha1_eval = sha1_hex_def sha1_words_def sha1_init_def sha1_pad_def replicate_num upt_rec
  schedule_def schedule_step_def rotl_def sha1_f_def sha1_k_def hex32_def hex_digit_def
  add32_def not32_def

lemma sha1_hex_abc: "sha1_hex ''abc'' = ''a9993e364706816aba3e25717850c26c9cd0d89d''"
  by (simp add: sha1_eval)

lemma sha1_hex_widget_url:
  "sha1_hex ''file:///project/src/Widget.js'' = ''090443041a8531671b5654e7ee62c9a014595e47''"
  by (simp add: sha1_eval)

lemma sha1_hex_widget_path:
  "sha1_hex ''/project/src/Widget.js'' = ''cbb6f3ba81bbe1bd0ab0d215d26b5dc0340ff6fb''"
  by (simp add: sha1_eval)

lemma sha1_hex_dotfile_path:
  "sha1_hex ''/project/.expo/@dom/.w.js'' = ''a3a2345e4db2aabc1a52a77e3c4e7351b02dec9e''"
  by (simp add: sha1_eval)

section \<open>Properties of the directive transformer\<close>

subsection \<open>The traversal\<close>


lemma traverse_no_named:
  "ExportNamedDeclaration \<notin> set ns \<Longrightarrow>
   traverse ns b = Inr (b \<or> ExportDefaultDeclaration \<in> set ns)"
  by (induction ns b rule: traverse.induct) auto

subsection \<open>The declaration of the source, branch by branch\<close>

lemma proxy_source_ios:
  \<open>proxy_source True (Some ''ios'') fp k =
     Inr (''const source = { uri: "www.bundle/'' @ sha1_hex k @ ''.html" };'')\<close>
  unfolding proxy_source_def Let_def JSON_stringify_ios dq_def by simp

lemma proxy_source_android:
  \<open>proxy_source True (Some ''android'') fp k =
     Inr (''const source = { uri: "file:///android_asset" + "www/'' @ sha1_hex k
          @ ''.html" };'')\<close>
  unfolding proxy_source_def Let_def JSON_stringify_android dq_def by simp




text \<open>Once the guards are passed, the visitor does what its last two steps do.\<close>

lemma plugin_reaches_source:
  assumes "platform api \<noteq> Some ''web''"
    and "list_ex (\<lambda>d. d = ''use dom'') (directives prog)"
    and "filename st = Some f" and "f \<noteq> []"
    and "ExportNamedDeclaration \<notin> set (body prog)"
    and "ExportDefaultDeclaration \<in> set (body prog)"
  shows "expoUseDomDirectivePlugin pathToFileURL template_ast api prog st =
     (case proxy_source (isProduction api) (platform api) f (pathToFileURL f) of
        Inl e \<Rightarrow> Inl e
      | Inr src \<Rightarrow> replace_body template_ast prog st src (pathToFileURL f))"
proof -
  from assms(5,6) have "traverse (body prog) False = Inr True"
    by (simp add: traverse_no_named)
  with assms(1-4) show ?thesis
    by (simp add: expoUseDomDirectivePlugin_def Let_def)
qed

subsection \<open>Export validation\<close>




subsection \<open>The source URI\<close>



subsection \<open>Nothing happens on web or without the directive\<close>

text \<open>
  Claim C5 says that a module without the directive is left alone and no error is raised.
  The visitor reads the file name before it looks at the directive: on ios, a module
  without the directive and without a file name in the compile state makes it throw.
\<close>

theorem C5_counterexample:
  "\<not> list_ex (\<lambda>d. d = ''use dom'') (directives \<lparr>directives = [], body = [OtherNode]\<rparr>) \<and>
   expoUseDomDirectivePlugin posix_pathToFileURL parse_as_one
     \<lparr>isProduction = False, platform = Some ''ios''\<rparr>
     \<lparr>directives = [], body = [OtherNode]\<rparr>
     \<lparr>filename = None, metadata = Some Map.empty\<rparr>
   = Inl MissingFilename"
  by (simp add: expoUseDomDirectivePlugin_def)

text \<open>
  Claim C5, amended. If the platform is web, or if the directive list does not include
  \<open>use dom\<close> and the file name is known, the visitor returns the module, its directives
  and the compile state, metadata included, as they were, and raises no error.
\<close>

theorem C5_frame:
  "platform api = Some ''web'' \<or>
   (\<not> list_ex (\<lambda>d. d = ''use dom'') (directives prog) \<and>
    (\<exists>f. filename st = Some f \<and> f \<noteq> []))
   \<Longrightarrow> expoUseDomDirectivePlugin pathToFileURL template_ast api prog st = Inr (prog, st)"
  by (auto simp: expoUseDomDirectivePlugin_def)

theorem C5_frame_witness:
  "expoUseDomDirectivePlugin posix_pathToFileURL parse_as_one
     \<lparr>isProduction = True, platform = Some ''web''\<rparr>
     \<lparr>directives = [''use dom''], body = [ExportNamedDeclaration]\<rparr>
     \<lparr>filename = None, metadata = None\<rparr>
   = Inr (\<lparr>directives = [''use dom''], body = [ExportNamedDeclaration]\<rparr>,
          \<lparr>filename = None, metadata = None\<rparr>)
   \<and>
   expoUseDomDirectivePlugin posix_pathToFileURL parse_as_one
     \<lparr>isProduction = True, platform = Some ''ios''\<rparr>
     \<lparr>directives = [''use strict''], body = [ExportNamedDeclaration]\<rparr>
     \<lparr>filename = Some ''/project/src/util.js'', metadata = None\<rparr>
   = Inr (\<lparr>directives = [''use strict''], body = [ExportNamedDeclaration]\<rparr>,
          \<lparr>filename = Some ''/project/src/util.js'', metadata = None\<rparr>)"
  using C5_frame [of "\<lparr>isProduction = True, platform = Some ''web''\<rparr>"
      "\<lparr>directives = [''use dom''], body = [ExportNamedDeclaration]\<rparr>"
      "\<lparr>filename = None, metadata = None\<rparr>" posix_pathToFileURL parse_as_one]
    C5_frame [of "\<lparr>isProduction = True, platform = Some ''ios''\<rparr>"
      "\<lparr>directives = [''use strict''], body = [ExportNamedDeclaration]\<rparr>"
      "\<lparr>filename = Some ''/project/src/util.js'', metadata = None\<rparr>"
      posix_pathToFileURL parse_as_one]
  by simp

subsection \<open>The metadata contract\<close>

text \<open>
  Claim C9. Whenever the visitor rewrites a module with the directive (on a platform other
  than web) without error, the compile state it leaves is the one it found with the file
  URL of the module stored in the metadata under \<open>expoDomComponentReference\<close>: one string
  field, and no other field of the metadata or of the state is written.
\<close>

theorem C9_metadata:
  assumes "expoUseDomDirectivePlugin pathToFileURL template_ast api prog st = Inr (prog', st')"
    and "platform api \<noteq> Some ''web''"
    and "list_ex (\<lambda>d. d = ''use dom'') (directives prog)"
  shows "\<exists>f m. filename st = Some f \<and> metadata st = Some m \<and>
           st' = st\<lparr>metadata := Some (m(''expoDomComponentReference'' \<mapsto> pathToFileURL f))\<rparr>"
  using assms
  by (auto simp: expoUseDomDirectivePlugin_def replace_body_def assertExpoMetadata_def Let_def
           split: option.splits if_splits sum.splits)

theorem C9_metadata_witness:
  "\<exists>prog'. expoUseDomDirectivePlugin posix_pathToFileURL parse_as_one
     \<lparr>isProduction = False, platform = Some ''android''\<rparr>
     \<lparr>directives = [''use dom''], body = [ExportDefaultDeclaration]\<rparr>
     \<lparr>filename = Some ''/project/src/Widget.js'', metadata = Some [''other'' \<mapsto> ''kept'']\<rparr>
   = Inr (prog',
       \<lparr>filename = Some ''/project/src/Widget.js'',
        metadata = Some [''other'' \<mapsto> ''kept'',
          ''expoDomComponentReference'' \<mapsto> ''file:///project/src/Widget.js'']\<rparr>)"
proof -
  obtain prog' st' where r: "expoUseDomDirectivePlugin posix_pathToFileURL parse_as_one
     \<lparr>isProduction = False, platform = Some ''android''\<rparr>
     \<lparr>directives = [''use dom''], body = [ExportDefaultDeclaration]\<rparr>
     \<lparr>filename = Some ''/project/src/Widget.js'', metadata = Some [''other'' \<mapsto> ''kept'']\<rparr>
   = Inr (prog', st')"
    by (simp add: expoUseDomDirectivePlugin_def proxy_source_def replace_body_def assertExpoMetadata_def
          parse_as_one_def Let_def)
  from C9_metadata [OF r] have "st' = \<lparr>filename = Some ''/project/src/Widget.js'',
        metadata = Some [''other'' \<mapsto> ''kept'',
          ''expoDomComponentReference'' \<mapsto> ''file:///project/src/Widget.js'']\<rparr>"
    by (simp add: posix_pathToFileURL_def)
  with r show ?thesis by blast
qed


section \<open>Properties of the HTML shell\<close>

lemma html_title:
  assumes "t \<noteq> []"
  shows \<open>str_includes (getDomComponentHtml src (Some t)) (''<title>'' @ t @ ''</title>'')\<close>
  using assms unfolding getDomComponentHtml_def
  by (simp only: option.case if_False str_includes_append)

lemma html_script:
  assumes "u \<noteq> []"
  shows \<open>str_includes (getDomComponentHtml (Some u) title)
     (''<script crossorigin src="'' @ u @ ''"></script>'')\<close>
proof -
  have "str_includes ((html_head @ (case title of None \<Rightarrow> []
        | Some t \<Rightarrow> if t = [] then [] else ''<title>'' @ t @ ''</title>'') @ html_middle)
       @ (''<script crossorigin src='' @ dq @ u @ dq @ ''></script>'') @ html_tail)
       (''<script crossorigin src='' @ dq @ u @ dq @ ''></script>'')"
    by (rule str_includes_append)
  with assms show ?thesis
    unfolding getDomComponentHtml_def by (simp add: dq_def)
qed

lemma shell_root:
  \<open>str_includes (getDomComponentHtml None None) ''<div id="root"></div>''\<close>
  by (simp add: getDomComponentHtml_def html_head_def html_middle_def html_tail_def nl_def)

lemma shell_no_script:
  \<open>\<not> str_includes (getDomComponentHtml None None) ''<script''\<close>
  by (simp add: getDomComponentHtml_def html_head_def html_middle_def html_tail_def nl_def)

lemma shell_no_title:
  \<open>\<not> str_includes (getDomComponentHtml None None) ''<title''\<close>
  by (simp add: getDomComponentHtml_def html_head_def html_middle_def html_tail_def nl_def)

text \<open>
  Claim C8. The shell is a function of \<open>src\<close> and \<open>title\<close> alone. Without arguments it
  holds the root container and neither a script tag nor a title element; for the source
  \<open>x.js\<close> and the title \<open>T\<close> it holds \<open><title>T</title>\<close> and a script tag whose
  \<open>src\<close> attribute is \<open>x.js\<close>.
\<close>

theorem C8_shell_builder:
  \<open>str_includes (getDomComponentHtml None None) ''<div id="root"></div>'' \<and>
   \<not> str_includes (getDomComponentHtml None None) ''<script'' \<and>
   \<not> str_includes (getDomComponentHtml None None) ''<title'' \<and>
   str_includes (getDomComponentHtml (Some ''x.js'') (Some ''T'')) ''<title>T</title>'' \<and>
   str_includes (getDomComponentHtml (Some ''x.js'') (Some ''T''))
     ''<script crossorigin src="x.js"></script>''\<close>
proof -
  have \<open>str_includes (getDomComponentHtml (Some ''x.js'') (Some ''T''))
      (''<title>'' @ ''T'' @ ''</title>'')\<close>
    by (rule html_title) simp
  moreover have \<open>str_includes (getDomComponentHtml (Some ''x.js'') (Some ''T''))
      (''<script crossorigin src="'' @ ''x.js'' @ ''"></script>'')\<close>
    by (rule html_script) simp
  ultimately show ?thesis
    using shell_root shell_no_script shell_no_title by simp
qed

section \<open>Properties of the development server\<close>

subsection \<open>Where the entry module is put\<close>

lemma generatedEntry_shape:
  "\<exists>pre. fst (getDomComponentVirtualEntryModuleAsync e file st)
       = pre @ ''.expo/@dom/'' @ sha1_hex
           (if startsWith file ''file://'' then fileURLToFilePath e file else file) @ ''.js''
     \<and> (pre = [] \<or> last pre = CHR ''/'')"
  using path_join_entry [OF entry_name]
  by (simp add: getDomComponentVirtualEntryModuleAsync_def Let_def)

lemma generatedEntry_basename:
  "basename (fst (getDomComponentVirtualEntryModuleAsync e file st))
     = sha1_hex (if startsWith file ''file://'' then fileURLToFilePath e file else file) @ ''.js''"
proof -
  let ?n = "sha1_hex (if startsWith file ''file://'' then fileURLToFilePath e file else file)
            @ ''.js''"
  obtain pre where "fst (getDomComponentVirtualEntryModuleAsync e file st)
      = pre @ ''.expo/@dom/'' @ ?n"
    using generatedEntry_shape [of e "file" st] by blast
  then have "fst (getDomComponentVirtualEntryModuleAsync e file st)
      = (pre @ ''.expo/@dom'') @ CHR ''/'' # ?n"
    by simp
  then show ?thesis
    using basename_last_segment [OF entry_name(1,2)] by metis
qed

subsection \<open>Writing the entry module\<close>



subsection \<open>The import specifier of the entry module\<close>

text \<open>
  The entry module of a file inside the entry directory, whose name begins with a dot.
\<close>

lemma dotfile_entry:
  "path_join [''/project'', ''.expo/@dom'', ''a3a2345e4db2aabc1a52a77e3c4e7351b02dec9e.js'']
     = ''/project/.expo/@dom/a3a2345e4db2aabc1a52a77e3c4e7351b02dec9e.js''"
  by (simp add: path_join_def normalize_def normalizeString_def isAbsolute_def)

lemma dotfile_dirname:
  "dirname ''/project/.expo/@dom/a3a2345e4db2aabc1a52a77e3c4e7351b02dec9e.js''
     = ''/project/.expo/@dom''"
  by (simp add: dirname_def)

lemma dotfile_relative:
  "relative ''/project'' ''/project/.expo/@dom'' ''/project/.expo/@dom/.w.js'' = ''.w.js''"
  by (simp add: relative_def resolve_def normalizeString_def isAbsolute_def)

lemma dotfile_proxy:
  \<open>getDomComponentVirtualProxy ''/project''
      ''/project/.expo/@dom/a3a2345e4db2aabc1a52a77e3c4e7351b02dec9e.js''
      ''/project/.expo/@dom/.w.js''
    = (''/project/.expo/@dom/a3a2345e4db2aabc1a52a77e3c4e7351b02dec9e.js'',
       nl @ ''// Entry file for the web-side of a DOM Component.'' @ nl
       @ ''import { registerDOMComponent } from '' @ sq @ ''expo/dom/internal'' @ sq
       @ '';'' @ nl @ nl
       @ ''registerDOMComponent(() => import(".w.js"), ".w.js");'' @ nl)\<close>
  unfolding getDomComponentVirtualProxy_def dotfile_dirname dotfile_relative
  by (simp add: JSON_stringify_def json_escape_def dq_def)

text \<open>
  Claim C6 says that the path the entry module imports always begins with a relative-path
  marker, \<open>./\<close> being prefixed when the relative path lacks one. The generator prefixes
  \<open>./\<close> only when the relative path does not begin with a dot. For the file
  \<open>/project/.expo/@dom/.w.js\<close> the relative path is \<open>.w.js\<close>: nothing is prefixed, and
  the module that is written imports \<open>.w.js\<close>, which begins with neither \<open>./\<close> nor
  \<open>../\<close>.
\<close>

theorem C6_dotfile_specifier:
  \<open>fst (getDomComponentVirtualEntryModuleAsync example_env
          ''file:///project/.expo/@dom/.w.js'' st0)
     = ''/project/.expo/@dom/a3a2345e4db2aabc1a52a77e3c4e7351b02dec9e.js'' \<and>
   files (snd (getDomComponentVirtualEntryModuleAsync example_env
          ''file:///project/.expo/@dom/.w.js'' st0))
       ''/project/.expo/@dom/a3a2345e4db2aabc1a52a77e3c4e7351b02dec9e.js''
     = Some (nl @ ''// Entry file for the web-side of a DOM Component.'' @ nl
             @ ''import { registerDOMComponent } from '' @ sq @ ''expo/dom/internal'' @ sq
             @ '';'' @ nl @ nl
             @ ''registerDOMComponent(() => import(".w.js"), ".w.js");'' @ nl)\<close>
proof -
  have fp: "posix_fileURLToFilePath ''file:///project/.expo/@dom/.w.js''
      = ''/project/.expo/@dom/.w.js''"
    by (simp add: posix_fileURLToFilePath_def)
  show ?thesis
    unfolding getDomComponentVirtualEntryModuleAsync_def Let_def
    by (simp add: example_env_def fp sha1_hex_dotfile_path dotfile_entry dotfile_proxy
          fileExistsAsync_def st0_def)
qed

subsection \<open>Routing\<close>



subsection \<open>The title of the page\<close>

text \<open>
  Claim C10. The shell holds its arguments as they are: for every non-empty title \<open>t\<close>
  it contains \<open><title>\<close> + \<open>t\<close> + \<open></title>\<close>, markup in \<open>t\<close> included, and likewise
  the source inside the script tag; and the title of the page the handler responds with
  is the base name of the \<open>file\<close> parameter of the request.
\<close>

theorem C10_title_verbatim:
  \<open>(t \<noteq> [] \<longrightarrow>
      str_includes (getDomComponentHtml src (Some t)) (''<title>'' @ t @ ''</title>'')) \<and>
   (s \<noteq> [] \<longrightarrow>
      str_includes (getDomComponentHtml (Some s) title)
        (''<script crossorigin src="'' @ s @ ''"></script>'')) \<and>
   (req_url req = Some u \<and> u \<noteq> [] \<and> coerceUrl e u = Some parsed \<and>
    startsWith (pathname parsed) ''/_expo/@dom'' \<and>
    map_of (searchParams parsed) ''file'' = Some f \<and> startsWith f ''file://'' \<longrightarrow>
      (\<exists>r st' metroUrl.
         createDomComponentsMiddleware e req res st = (Ended r, st') \<and>
         res_body r = Some (getDomComponentHtml (Some metroUrl) (Some (basename f))) \<and>
         str_includes (getDomComponentHtml (Some metroUrl) (Some (basename f)))
           (''<title>'' @ basename f @ ''</title>'')))\<close>
proof (intro conjI impI)
  assume "t \<noteq> []"
  then show \<open>str_includes (getDomComponentHtml src (Some t)) (''<title>'' @ t @ ''</title>'')\<close>
    by (rule html_title)
next
  assume "s \<noteq> []"
  then show \<open>str_includes (getDomComponentHtml (Some s) title)
        (''<script crossorigin src="'' @ s @ ''"></script>'')\<close>
    by (rule html_script)
next
  assume a: "req_url req = Some u \<and> u \<noteq> [] \<and> coerceUrl e u = Some parsed \<and>
    startsWith (pathname parsed) ''/_expo/@dom'' \<and>
    map_of (searchParams parsed) ''file'' = Some f \<and> startsWith f ''file://''"
  then have "CHR ''f'' \<in> set f"
    by (auto dest: startsWith_Cons_mem)
  then have "basename f \<noteq> []"
    by (rule basename_nonempty) simp
  then have "str_includes (getDomComponentHtml (Some m) (Some (basename f)))
           (''<title>'' @ basename f @ ''</title>'')" for m
    by (rule html_title)
  with a show "\<exists>r st' metroUrl.
         createDomComponentsMiddleware e req res st = (Ended r, st') \<and>
         res_body r = Some (getDomComponentHtml (Some metroUrl) (Some (basename f))) \<and>
         str_includes (getDomComponentHtml (Some metroUrl) (Some (basename f)))
           (''<title>'' @ basename f @ ''</title>'')"
    by (auto simp: createDomComponentsMiddleware_def Let_def split: prod.splits)
qed

theorem C10_title_verbatim_witness:
  \<open>str_includes (getDomComponentHtml None (Some ''<b>T</b>'')) ''<title><b>T</b></title>'' \<and>
   str_includes (getDomComponentHtml (Some ''x.js'') None)
     ''<script crossorigin src="x.js"></script>'' \<and>
   (\<exists>r st' metroUrl.
      createDomComponentsMiddleware example_env
        \<lparr>req_url = Some ''/_expo/@dom?file=file:///project/<img src=x>.js''\<rparr> res0 st0
        = (Ended r, st') \<and>
      res_body r = Some (getDomComponentHtml (Some metroUrl) (Some ''<img src=x>.js'')) \<and>
      str_includes (getDomComponentHtml (Some metroUrl) (Some ''<img src=x>.js''))
        ''<title><img src=x>.js</title>'')\<close>
  using C10_title_verbatim [of "''<b>T</b>''" None "''x.js''" None
      "\<lparr>req_url = Some ''/_expo/@dom?file=file:///project/<img src=x>.js''\<rparr>"
      "''/_expo/@dom?file=file:///project/<img src=x>.js''" example_env
      "\<lparr>pathname = ''/_expo/@dom'',
        searchParams = [(''file'', ''file:///project/<img src=x>.js'')]\<rparr>"
      "''file:///project/<img src=x>.js''" res0 st0]
  by (simp add: coerceUrl_def example_env_def simple_parse_def basename_def)

section \<open>The two hashes of one file\<close>

text \<open>
  Claim C1 says that the hash in the path of the entry module and the hash in the
  production URI are the same for the same file. They are not: for
  \<open>/project/src/Widget.js\<close> the generator hashes that path, the transformer hashes the
  URL \<open>file:///project/src/Widget.js\<close>, and the two digests differ.
\<close>

theorem C1_counterexample:
  \<open>fst (getDomComponentVirtualEntryModuleAsync example_env
          ''file:///project/src/Widget.js'' st0)
     = ''/project/.expo/@dom/cbb6f3ba81bbe1bd0ab0d215d26b5dc0340ff6fb.js'' \<and>
   expoUseDomDirectivePlugin posix_pathToFileURL parse_as_one
       \<lparr>isProduction = True, platform = Some ''ios''\<rparr>
       \<lparr>directives = [''use dom''], body = [ExportDefaultDeclaration]\<rparr>
       \<lparr>filename = Some ''/project/src/Widget.js'', metadata = Some Map.empty\<rparr>
     = Inr (\<lparr>directives = [],
             body = [TemplateAst (join nl
               [proxy_imports,
                ''const source = { uri: "www.bundle/090443041a8531671b5654e7ee62c9a014595e47.html" };'',
                proxy_export])]\<rparr>,
            \<lparr>filename = Some ''/project/src/Widget.js'',
             metadata = Some [''expoDomComponentReference''
                                \<mapsto> ''file:///project/src/Widget.js'']\<rparr>) \<and>
   sha1_hex ''/project/src/Widget.js'' \<noteq> sha1_hex ''file:///project/src/Widget.js''\<close>
proof (intro conjI)
  show \<open>fst (getDomComponentVirtualEntryModuleAsync example_env
          ''file:///project/src/Widget.js'' st0)
     = ''/project/.expo/@dom/cbb6f3ba81bbe1bd0ab0d215d26b5dc0340ff6fb.js''\<close>
    by (simp add: getDomComponentVirtualEntryModuleAsync_def Let_def example_env_def
          posix_fileURLToFilePath_def sha1_hex_widget_path path_join_def normalize_def
          normalizeString_def isAbsolute_def)
  show \<open>expoUseDomDirectivePlugin posix_pathToFileURL parse_as_one
       \<lparr>isProduction = True, platform = Some ''ios''\<rparr>
       \<lparr>directives = [''use dom''], body = [ExportDefaultDeclaration]\<rparr>
       \<lparr>filename = Some ''/project/src/Widget.js'', metadata = Some Map.empty\<rparr>
     = Inr (\<lparr>directives = [],
             body = [TemplateAst (join nl
               [proxy_imports,
                ''const source = { uri: "www.bundle/090443041a8531671b5654e7ee62c9a014595e47.html" };'',
                proxy_export])]\<rparr>,
            \<lparr>filename = Some ''/project/src/Widget.js'',
             metadata = Some [''expoDomComponentReference''
                                \<mapsto> ''file:///project/src/Widget.js'']\<rparr>)\<close>
    by (simp add: expoUseDomDirectivePlugin_def Let_def proxy_source_ios
          posix_pathToFileURL_def sha1_hex_widget_url replace_body_def assertExpoMetadata_def parse_as_one_def)
  show "sha1_hex ''/project/src/Widget.js'' \<noteq> sha1_hex ''file:///project/src/Widget.js''"
    by (simp add: sha1_hex_widget_path sha1_hex_widget_url)
qed

text \<open>
  Claim C1, amended. Both components take the SHA-1 digest in hexadecimal, of different
  strings. The name of the entry module the generator makes for a file URL is the digest
  of the path that \<^verbatim>\<open>fileURLToFilePath\<close> gives for that URL (of the string it is given,
  when that does not start with \<open>file://\<close>), followed by \<open>.js\<close>; the production URI the
  transformer emits for the file \<open>f\<close> holds the digest of the file URL of \<open>f\<close>.
\<close>

theorem C1_hash_sources:
  assumes "isProduction api"
    and "platform api = Some ''ios'' \<or> platform api = Some ''android''"
    and "list_ex (\<lambda>d. d = ''use dom'') (directives prog)"
    and "filename cst = Some f" and "f \<noteq> []"
    and "ExportNamedDeclaration \<notin> set (body prog)"
    and "ExportDefaultDeclaration \<in> set (body prog)"
  shows
    \<open>basename (fst (getDomComponentVirtualEntryModuleAsync e file st))
       = sha1_hex (if startsWith file ''file://'' then fileURLToFilePath e file else file)
         @ ''.js'' \<and>
     expoUseDomDirectivePlugin pathToFileURL template_ast api prog cst =
       replace_body template_ast prog cst
         (if platform api = Some ''ios''
          then ''const source = { uri: "www.bundle/''
                 @ sha1_hex (pathToFileURL f) @ ''.html" };''
          else ''const source = { uri: "file:///android_asset" + "www/''
                 @ sha1_hex (pathToFileURL f) @ ''.html" };'')
         (pathToFileURL f)\<close>
proof -
  from assms(2) have nonweb: "platform api \<noteq> Some ''web''"
    by auto
  have \<open>expoUseDomDirectivePlugin pathToFileURL template_ast api prog cst =
       replace_body template_ast prog cst
         (if platform api = Some ''ios''
          then ''const source = { uri: "www.bundle/''
                 @ sha1_hex (pathToFileURL f) @ ''.html" };''
          else ''const source = { uri: "file:///android_asset" + "www/''
                 @ sha1_hex (pathToFileURL f) @ ''.html" };'')
         (pathToFileURL f)\<close>
    unfolding plugin_reaches_source [OF nonweb assms(3-7)]
    using assms(1,2) by (auto simp: proxy_source_ios proxy_source_android)
  then show ?thesis
    by (simp only: generatedEntry_basename simp_thms)
qed

theorem C1_hash_sources_witness:
  \<open>basename (fst (getDomComponentVirtualEntryModuleAsync example_env
       ''file:///project/src/Widget.js'' st0))
     = sha1_hex ''/project/src/Widget.js'' @ ''.js'' \<and>
   expoUseDomDirectivePlugin posix_pathToFileURL parse_as_one
       \<lparr>isProduction = True, platform = Some ''android''\<rparr>
       \<lparr>directives = [''use dom''], body = [ExportDefaultDeclaration]\<rparr>
       \<lparr>filename = Some ''/project/src/Widget.js'', metadata = Some Map.empty\<rparr>
     = Inr (\<lparr>directives = [],
             body = [TemplateAst (join nl
               [proxy_imports,
                ''const source = { uri: "file:///android_asset" + "www/''
                  @ sha1_hex ''file:///project/src/Widget.js'' @ ''.html" };'',
                proxy_export])]\<rparr>,
            \<lparr>filename = Some ''/project/src/Widget.js'',
             metadata = Some [''expoDomComponentReference''
                                \<mapsto> ''file:///project/src/Widget.js'']\<rparr>)\<close>
  using C1_hash_sources [of
      "\<lparr>isProduction = True, platform = Some ''android''\<rparr>"
      "\<lparr>directives = [''use dom''], body = [ExportDefaultDeclaration]\<rparr>"
      "\<lparr>filename = Some ''/project/src/Widget.js'', metadata = Some Map.empty\<rparr>"
      "''/project/src/Widget.js''" example_env "''file:///project/src/Widget.js''" st0
      posix_pathToFileURL parse_as_one]
  by (simp add: example_env_def posix_fileURLToFilePath_def posix_pathToFileURL_def
        replace_body_def assertExpoMetadata_def parse_as_one_def)

end
